theory Spec2Isabelle
  imports Complex_Main "HOL-Library.Sublist"
begin

section \<open>JavaScript values\<close>

text \<open>
  The pipeline of \<^verbatim>\<open>data-config.js\<close> runs on values of a dynamically typed language.
  A Number is an IEEE binary64 value: a finite one is the rational it denotes, next to
  not-a-number and the two infinities. The sign of zero is not kept: no operation used
  here (\<^verbatim>\<open><=\<close>, \<^verbatim>\<open><\<close>, \<^verbatim>\<open>toFixed\<close>) can see it.
\<close>

datatype jsnum = Fin rat | NaN | PosInf | NegInf

text \<open>
  A string is a list of code units; a \<^typ>\<open>char\<close> is one code unit below 256, which covers
  every literal of the source (its three letters outside ASCII are the code units
  \<open>0xE3\<close>, \<open>0xE9\<close> and \<open>0xFC\<close>).
  \<open>JObject name\<close> is a built-in object reached through the prototype of an object
  literal, for instance the function \<^verbatim>\<open>Object.prototype.toString\<close>.
\<close>

datatype jsval = JUndefined | JString string | JNumber jsnum | JObject string

text \<open>
  A field of a row delivered by the CSV reader is a string, or \<^verbatim>\<open>undefined\<close> when the
  file has no such column.
\<close>

type_synonym field = "string option"

definition val_of :: "field \<Rightarrow> jsval" where
  "val_of f = (case f of None \<Rightarrow> JUndefined | Some s \<Rightarrow> JString s)"

text \<open>\<^verbatim>\<open>ToString\<close> of a field, as applied to a property key and by \<^verbatim>\<open>parseFloat\<close>.\<close>

definition field_to_string :: "field \<Rightarrow> string" where
  "field_to_string f = (case f of None \<Rightarrow> ''undefined'' | Some s \<Rightarrow> s)"

text \<open>\<^verbatim>\<open>ToBoolean\<close>, which decides the operator \<^verbatim>\<open>||\<close>.\<close>

fun truthy :: "jsval \<Rightarrow> bool" where
  "truthy JUndefined = False"
| "truthy (JString s) = (s \<noteq> [])"
| "truthy (JNumber (Fin q)) = (q \<noteq> 0)"
| "truthy (JNumber NaN) = False"
| "truthy (JNumber _) = True"
| "truthy (JObject _) = True"

definition js_or :: "jsval \<Rightarrow> jsval \<Rightarrow> jsval" where
  "js_or a b = (if truthy a then a else b)"

subsection \<open>Property lookup on an object literal\<close>

text \<open>
  An object literal is the list of its own properties. Reading \<^verbatim>\<open>obj[key]\<close> looks at the
  own properties first and then at \<^verbatim>\<open>Object.prototype\<close>, whose properties every object
  literal inherits; a name found in neither gives \<^verbatim>\<open>undefined\<close>.
\<close>

type_synonym jsobject = "(string \<times> jsval) list"

definition object_prototype_names :: "string list" where
  "object_prototype_names =
     [''constructor'', ''hasOwnProperty'', ''isPrototypeOf'', ''propertyIsEnumerable'',
      ''toLocaleString'', ''toString'', ''valueOf'', ''__proto__'',
      ''__defineGetter__'', ''__defineSetter__'', ''__lookupGetter__'', ''__lookupSetter__'']"

definition get_prop :: "jsobject \<Rightarrow> string \<Rightarrow> jsval" where
  "get_prop obj key =
     (case map_of obj key of
        Some v \<Rightarrow> v
      | None \<Rightarrow> if key \<in> set object_prototype_names then JObject key else JUndefined)"

subsection \<open>Rounding a real to binary64\<close>

text \<open>
  Integers of any size are of type \<^typ>\<open>int\<close> throughout, also where they cannot be
  negative; \<^typ>\<open>nat\<close> is kept for lengths and positions.
\<close>

function bit_length :: "int \<Rightarrow> int" where
  "bit_length n = (if n \<le> 0 then 0 else 1 + bit_length (n div 2))"
  by pat_completeness auto
termination
  by (relation "measure nat") auto

function ipow :: "rat \<Rightarrow> int \<Rightarrow> rat" where
  "ipow b e = (if e \<le> 0 then 1 else b * ipow b (e - 1))"
  by pat_completeness auto
termination
  by (relation "measure (\<lambda>(b, e). nat e)") auto

definition pow2 :: "int \<Rightarrow> rat" where
  "pow2 e = (if 0 \<le> e then ipow 2 e else 1 / ipow 2 (- e))"

definition pow10 :: "int \<Rightarrow> rat" where
  "pow10 e = (if 0 \<le> e then ipow 10 e else 1 / ipow 10 (- e))"

text \<open>The \<open>e\<close> with \<open>2 ^ e \<le> q < 2 ^ (e + 1)\<close>, for a positive \<open>q\<close>.\<close>

definition ilog2 :: "rat \<Rightarrow> int" where
  "ilog2 q =
     (let (a, b) = quotient_of q;
          d = bit_length a - bit_length b
      in if pow2 d \<le> q then d else d - 1)"

definition round_half_even :: "rat \<Rightarrow> int" where
  "round_half_even q =
     (let f = \<lfloor>q\<rfloor>; r = q - of_int f
      in if r < 1 / 2 then f else if 1 / 2 < r then f + 1 else if even f then f else f + 1)"

text \<open>
  Round to nearest, ties to even, with 53 significant bits, exponents from \<open>-1022\<close>
  (below it the spacing stays \<open>2 ^ -1074\<close>: subnormals) and overflow to infinity.
\<close>

definition to_double :: "rat \<Rightarrow> jsnum" where
  "to_double q =
     (if q = 0 then Fin 0
      else let a = \<bar>q\<bar>;
               e = max (ilog2 a) (- 1022);
               ulp = pow2 (e - 52);
               r = of_int (round_half_even (a / ulp)) * ulp
           in if pow2 1024 \<le> r then (if q < 0 then NegInf else PosInf)
              else Fin (if q < 0 then - r else r))"

subsection \<open>Reading a number from a string\<close>

definition is_digit :: "char \<Rightarrow> bool" where
  "is_digit c = (48 \<le> (of_char c :: nat) \<and> (of_char c :: nat) \<le> 57)"

definition digit_val :: "char \<Rightarrow> int" where
  "digit_val c = of_char c - 48"

definition digits_val :: "string \<Rightarrow> int" where
  "digits_val ds = foldl (\<lambda>a c. 10 * a + digit_val c) 0 ds"

text \<open>White space and line terminators among the code units below 256.\<close>

definition is_space :: "char \<Rightarrow> bool" where
  "is_space c = ((of_char c :: nat) \<in> {9, 10, 11, 12, 13, 32, 160})"

definition trim :: "string \<Rightarrow> string" where
  "trim s = rev (dropWhile is_space (rev (dropWhile is_space s)))"

text \<open>
  An exponent part \<^verbatim>\<open>e\<close>, sign, digits at the head of \<open>s\<close>: its value and what follows.
  Without a digit there is no exponent part and nothing is consumed.
\<close>

definition scan_exponent :: "string \<Rightarrow> int \<times> string" where
  "scan_exponent s =
     (case s of
        [] \<Rightarrow> (0, s)
      | c # t \<Rightarrow>
          if c = CHR ''e'' \<or> c = CHR ''E'' then
            (let (neg, u) =
                   (case t of
                      [] \<Rightarrow> (False, t)
                    | d # u' \<Rightarrow> if d = CHR ''-'' then (True, u')
                               else if d = CHR ''+'' then (False, u') else (False, t));
                 ds = takeWhile is_digit u
             in if ds = [] then (0, s)
                else (if neg then - digits_val ds else digits_val ds,
                      dropWhile is_digit u))
          else (0, s))"

text \<open>
  The longest prefix of \<open>s\<close> that is digits, an optional point with digits, and an
  optional exponent part, with a digit before or after the point: its exact value and
  what follows.
\<close>

definition scan_unsigned :: "string \<Rightarrow> (rat \<times> string) option" where
  "scan_unsigned s =
     (let ip = takeWhile is_digit s;
          r1 = dropWhile is_digit s;
          (fp, r2) =
            (case r1 of
               [] \<Rightarrow> ([], r1)
             | c # t \<Rightarrow> if c = CHR ''.'' \<and> (ip \<noteq> [] \<or> takeWhile is_digit t \<noteq> [])
                        then (takeWhile is_digit t, dropWhile is_digit t) else ([], r1))
      in if ip = [] \<and> fp = [] then None
         else let (ex, r3) = scan_exponent r2;
                  m = of_int (digits_val ip) + of_int (digits_val fp) * pow10 (- int (length fp))
              in Some (m * pow10 ex, r3))"

text \<open>The longest prefix that is a \<^verbatim>\<open>StrDecimalLiteral\<close>: sign, then \<^verbatim>\<open>Infinity\<close> or digits.\<close>

definition scan_decimal :: "string \<Rightarrow> (jsnum \<times> string) option" where
  "scan_decimal s =
     (let (neg, t) =
            (case s of
               [] \<Rightarrow> (False, s)
             | c # t' \<Rightarrow> if c = CHR ''-'' then (True, t')
                         else if c = CHR ''+'' then (False, t') else (False, s))
      in if take 8 t = ''Infinity'' then Some (if neg then NegInf else PosInf, drop 8 t)
         else (case scan_unsigned t of
                 None \<Rightarrow> None
               | Some (q, r) \<Rightarrow> Some (to_double (if neg then - q else q), r)))"

text \<open>
  \<^verbatim>\<open>parseFloat(x)\<close>: the argument as a string, leading white space dropped, the longest
  decimal prefix read; not-a-number when there is none.
\<close>

definition parseFloat :: "field \<Rightarrow> jsnum" where
  "parseFloat x =
     (case scan_decimal (dropWhile is_space (field_to_string x)) of
        None \<Rightarrow> NaN
      | Some (v, r) \<Rightarrow> v)"

text \<open>Digits of a literal in base 2, 8 or 16.\<close>

definition radix_digit :: "char \<Rightarrow> int option" where
  "radix_digit c =
     (let n = (of_char c :: int)
      in if 48 \<le> n \<and> n \<le> 57 then Some (n - 48)
         else if 97 \<le> n \<and> n \<le> 102 then Some (n - 87)
         else if 65 \<le> n \<and> n \<le> 70 then Some (n - 55)
         else None)"

definition radix_val :: "int \<Rightarrow> string \<Rightarrow> jsnum" where
  "radix_val b ds =
     (if ds \<noteq> [] \<and> list_all (\<lambda>c. case radix_digit c of None \<Rightarrow> False | Some d \<Rightarrow> d < b) ds
      then to_double (of_int (foldl (\<lambda>a c. b * a + the (radix_digit c)) 0 ds))
      else NaN)"

text \<open>
  \<^verbatim>\<open>ToNumber\<close> of a string: white space trimmed at both ends, the empty string is 0, the
  whole of the rest must be one literal.
\<close>

definition string_to_number :: "string \<Rightarrow> jsnum" where
  "string_to_number s =
     (let t = trim s
      in if t = [] then Fin 0
         else if take 2 t = ''0x'' \<or> take 2 t = ''0X'' then radix_val 16 (drop 2 t)
         else if take 2 t = ''0o'' \<or> take 2 t = ''0O'' then radix_val 8 (drop 2 t)
         else if take 2 t = ''0b'' \<or> take 2 t = ''0B'' then radix_val 2 (drop 2 t)
         else (case scan_decimal t of
                 Some (v, []) \<Rightarrow> v
               | _ \<Rightarrow> NaN))"

text \<open>
  \<^verbatim>\<open>ToNumber\<close> of a value. A built-in function or prototype object converts through its
  string form, which is no numeric literal.
\<close>

fun to_number :: "jsval \<Rightarrow> jsnum" where
  "to_number JUndefined = NaN"
| "to_number (JString s) = string_to_number s"
| "to_number (JNumber n) = n"
| "to_number (JObject _) = NaN"

text \<open>The comparisons \<^verbatim>\<open><=\<close> and \<^verbatim>\<open><\<close> on Numbers: false as soon as one side is not-a-number.\<close>

fun num_le :: "jsnum \<Rightarrow> jsnum \<Rightarrow> bool" where
  "num_le NaN _ = False"
| "num_le _ NaN = False"
| "num_le NegInf _ = True"
| "num_le _ PosInf = True"
| "num_le (Fin a) (Fin b) = (a \<le> b)"
| "num_le _ _ = False"

fun num_lt :: "jsnum \<Rightarrow> jsnum \<Rightarrow> bool" where
  "num_lt NaN _ = False"
| "num_lt _ NaN = False"
| "num_lt PosInf _ = False"
| "num_lt _ NegInf = False"
| "num_lt (Fin a) (Fin b) = (a < b)"
| "num_lt _ _ = True"

subsection \<open>Writing a number with one decimal\<close>

definition digit_char :: "int \<Rightarrow> char" where
  "digit_char d = char_of (48 + d)"

function digits_of :: "int \<Rightarrow> string" where
  "digits_of n = (if n < 10 then [digit_char n] else digits_of (n div 10) @ [digit_char (n mod 10)])"
  by pat_completeness auto
termination
  by (relation "measure nat") auto

text \<open>
  The digits of \<^verbatim>\<open>Number::toString\<close> for an integer-valued \<open>x\<close> of \<open>n\<close> digits: the least
  number \<open>k\<close> of leading digits \<open>s\<close> for which \<open>s * 10 ^ (n - k)\<close> still rounds to \<open>x\<close>; of
  two such \<open>s\<close> the one nearer to \<open>x\<close>, the even one at equal distance.
\<close>

function shortest_digits :: "int \<Rightarrow> nat \<Rightarrow> nat \<Rightarrow> int \<times> nat" where
  "shortest_digits x n k =
     (let p = 10 ^ (n - k); lo = x div p; hi = lo + 1;
          ok_lo = (to_double (of_int (lo * p)) = Fin (of_int x));
          ok_hi = (to_double (of_int (hi * p)) = Fin (of_int x))
      in if ok_lo \<and> ok_hi then
           (if x - lo * p < hi * p - x then (lo, k)
            else if hi * p - x < x - lo * p then (hi, k)
            else if even lo then (lo, k) else (hi, k))
         else if ok_lo then (lo, k)
         else if ok_hi then (hi, k)
         else if k < n then shortest_digits x n (Suc k)
         else (x, n))"
  by pat_completeness auto
termination
  by (relation "measure (\<lambda>(x, n, k). n - k)") auto

definition strip_zeros :: "string \<Rightarrow> string" where
  "strip_zeros ds = rev (dropWhile (\<lambda>c. c = CHR ''0'') (rev ds))"

text \<open>
  \<^verbatim>\<open>Number::toString\<close> of a finite \<open>q\<close> with \<open>10 ^ 21 \<le> q\<close>, which is always in exponent
  form: \<^verbatim>\<open>d.ddde+N\<close>.
\<close>

definition big_to_string :: "rat \<Rightarrow> string" where
  "big_to_string q =
     (let x = \<lfloor>q\<rfloor>;
          n = length (digits_of x);
          (s, k) = shortest_digits x n 1;
          ds = digits_of s;
          e = n - 1 + (length ds - k);
          m = strip_zeros ds
      in (if length m = 1 then m else hd m # CHR ''.'' # tl m) @ ''e+'' @ digits_of (int e))"

text \<open>
  \<^verbatim>\<open>x.toFixed(1)\<close>. Below \<open>10 ^ 21\<close> the result is the integer \<open>n\<close> nearest to \<open>10 * x\<close>
  (the larger of two at equal distance) with a point before its last digit.
\<close>

definition toFixed1 :: "jsnum \<Rightarrow> string" where
  "toFixed1 v =
     (case v of
        NaN \<Rightarrow> ''NaN''
      | PosInf \<Rightarrow> ''Infinity''
      | NegInf \<Rightarrow> ''-Infinity''
      | Fin q \<Rightarrow>
          (let sgn = (if q < 0 then ''-'' else '''');
               x = \<bar>q\<bar>
           in if 10 ^ 21 \<le> x then sgn @ big_to_string x
              else let n = \<lfloor>10 * x + 1 / 2\<rfloor>;
                       m = digits_of n;
                       m' = (if length m \<le> 1 then CHR ''0'' # m else m)
                   in sgn @ butlast m' @ ''.'' @ [last m']))"

section \<open>The class DataConfig\<close>

text \<open>A row of the parsed CSV file: an object with one property for each column read here.\<close>

record csvRow =
  setting :: field
  indicator_name :: field
  dimension :: field
  subgroup :: field
  wbincome2024 :: field
  estimate :: field

text \<open>The object \<^verbatim>\<open>firstCountryData\<close> pushed by the first pass.\<close>

record firstCountryData =
  country :: field
  residence :: field
  income :: field
  labour :: jsval

text \<open>
  The second pass pushes the array \<^verbatim>\<open>[finalCountry, income, labour]\<close>, the last pass the
  array \<^verbatim>\<open>[country, finalIncome, finalLabour]\<close>.
\<close>

type_synonym secondCountryData = "jsval \<times> field \<times> jsval"

type_synonym finalCountryData = "jsval \<times> jsval \<times> jsval"

text \<open>The fields of an instance; the three configuration fields carry the prefix \<open>this\<close>.\<close>

record DataConfig =
  this_countryConfig :: jsobject
  this_incomeConfig :: jsobject
  this_labourConfig :: "jsval \<Rightarrow> jsval"
  firstSort :: "firstCountryData list"
  secondSort :: "secondCountryData list"
  finalSort :: "finalCountryData list"

definition constructor :: "jsobject \<Rightarrow> jsobject \<Rightarrow> (jsval \<Rightarrow> jsval) \<Rightarrow> DataConfig" where
  "constructor countryConfig incomeConfig labourConfig =
     \<lparr>this_countryConfig = countryConfig,
      this_incomeConfig = incomeConfig,
      this_labourConfig = labourConfig,
      firstSort = [], secondSort = [], finalSort = []\<rparr>"

subsection \<open>First pass\<close>

text \<open>
  \<^verbatim>\<open>for (let i = 0, n = csvData.length; i < n; i++)\<close>: the loop from \<open>i\<close> on, with \<open>n\<close>
  fixed before the loop. \<^verbatim>\<open>toFixed\<close> returns a string, and that string is what is stored
  as \<^verbatim>\<open>labour\<close>.
\<close>

function firstParseLoop :: "csvRow list \<Rightarrow> nat \<Rightarrow> nat \<Rightarrow> DataConfig \<Rightarrow> DataConfig" where
  "firstParseLoop csvData i n this =
     (if i < n then
        firstParseLoop csvData (Suc i) n
          (if indicator_name (csvData ! i) = Some ''Labour force participation rate (%) - Female'' \<and>
              dimension (csvData ! i) = Some ''Place of residence''
           then let firstCountryData =
                      \<lparr>country = setting (csvData ! i),
                       residence = subgroup (csvData ! i),
                       income = wbincome2024 (csvData ! i),
                       labour = JString (toFixed1 (parseFloat (estimate (csvData ! i))))\<rparr>
                in this\<lparr>firstSort := firstSort this @ [firstCountryData]\<rparr>
           else this)
      else this)"
  by pat_completeness auto
termination
  by (relation "measure (\<lambda>(csvData, i, n, this). n - i)") auto

definition firstParseData :: "csvRow list \<Rightarrow> DataConfig \<Rightarrow> DataConfig" where
  "firstParseData csvData this = firstParseLoop csvData 0 (length csvData) this"

subsection \<open>Second pass\<close>

function secondParseLoop :: "nat \<Rightarrow> nat \<Rightarrow> DataConfig \<Rightarrow> DataConfig" where
  "secondParseLoop i n this =
     (if i < n then
        secondParseLoop (Suc i) n
          (if income (firstSort this ! i) \<noteq> None \<and>
              income (firstSort this ! i) \<noteq> Some '''' \<and> i mod 2 = 0
           then let finalCountry =
                      js_or (get_prop (this_countryConfig this)
                               (field_to_string (country (firstSort this ! i))))
                            (val_of (country (firstSort this ! i)))
                in this\<lparr>secondSort := secondSort this @
                          [(finalCountry, income (firstSort this ! i), labour (firstSort this ! i))]\<rparr>
           else this)
      else this)"
  by pat_completeness auto
termination
  by (relation "measure (\<lambda>(i, n, this). n - i)") auto

definition secondParseData :: "DataConfig \<Rightarrow> DataConfig" where
  "secondParseData this = secondParseLoop 0 (length (firstSort this)) this"

subsection \<open>Last pass\<close>

function finalParseLoop :: "nat \<Rightarrow> nat \<Rightarrow> DataConfig \<Rightarrow> DataConfig" where
  "finalParseLoop i n this =
     (if i < n then
        finalParseLoop (Suc i) n
          (let finalIncome =
                 get_prop (this_incomeConfig this) (field_to_string (fst (snd (secondSort this ! i))));
               finalLabour = this_labourConfig this (snd (snd (secondSort this ! i)))
           in this\<lparr>finalSort := finalSort this @
                     [(fst (secondSort this ! i), finalIncome, finalLabour)]\<rparr>)
      else this)"
  by pat_completeness auto
termination
  by (relation "measure (\<lambda>(i, n, this). n - i)") auto

text \<open>The method has no \<^verbatim>\<open>return\<close>: its value is \<^verbatim>\<open>undefined\<close>, its result is the instance.\<close>

definition finalParseData :: "DataConfig \<Rightarrow> jsval \<times> DataConfig" where
  "finalParseData this = (JUndefined, finalParseLoop 0 (length (secondSort this)) this)"

definition parseData :: "csvRow list \<Rightarrow> DataConfig \<Rightarrow> jsval \<times> DataConfig" where
  "parseData csvData this = finalParseData (secondParseData (firstParseData csvData this))"

section \<open>The configuration of main.js\<close>

definition countryConfig :: jsobject where
  "countryConfig =
     [(''Bolivia (Plurinational State of)'', JString ''Bolivia''),
      (''Bosnia and Herzegovina'', JString ''Bosnia and Herz.''),
      (''Brunei Darussalam'', JString ''Brunei''),
      (''Central African Republic'', JString ''Central African Rep.''),
      (''Democratic People'' @ [CHR 0x27] @ ''s Republic of Korea'', JString ''North Korea''),
      (''Democratic Republic of the Congo'', JString ''Dem. Rep. Congo''),
      (''Dominican Republic'', JString ''Dominican Rep.''),
      (''Equatorial Guinea'', JString ''Eq. Guinea''),
      (''Iran (Islamic Republic of)'', JString ''Iran''),
      (''Lao People'' @ [CHR 0x27] @ ''s Democratic Republic'', JString ''Laos''),
      (''Netherlands (Kingdom of the)'', JString ''Netherlands''),
      (''North Macedonia'', JString ''Macedonia''),
      (''occupied Palestinian territory'', JString ''Palestine''),
      (''Republic of Korea'', JString ''South Korea''),
      (''Republic of Moldova'', JString ''Moldova''),
      (''Russian Federation'', JString ''Russia''),
      (''Saint Vincent and the Grenadines'', JString ''St. Vin. and Gren.''),
      (''Sao Tome and Principe'',
         JString (''S'' @ [CHR 0xE3] @ ''o Tom'' @ [CHR 0xE9] @ '' and Principe'')),
      (''Solomon Islands'', JString ''Solomon Is.''),
      (''South Sudan'', JString ''S. Sudan''),
      (''Syrian Arab Republic'', JString ''Syria''),
      (''The United Kingdom'', JString ''United Kingdom''),
      (''T'' @ [CHR 0xFC] @ ''rkiye'', JString ''Turkey''),
      (''United Republic of Tanzania'', JString ''Tanzania''),
      (''Viet Nam'', JString ''Vietnam'')]"

abbreviation JNum :: "rat \<Rightarrow> jsval" where
  "JNum q \<equiv> JNumber (Fin q)"

definition incomeConfig :: jsobject where
  "incomeConfig =
     [(''Low income'', JNum 0),
      (''Lower middle income'', JNum 0),
      (''Upper middle income'', JNum 1),
      (''High income'', JNum 2)]"

text \<open>
  The operands of \<^verbatim>\<open><=\<close> and \<^verbatim>\<open><\<close> are a value and a Number, so the value is converted
  with \<^verbatim>\<open>ToNumber\<close> at each comparison.
\<close>

definition labourConfig :: "jsval \<Rightarrow> jsval" where
  "labourConfig v =
     (if num_le (to_number v) (Fin 45) then JNum 0
      else if num_lt (Fin 45) (to_number v) \<and> num_le (to_number v) (Fin 58) then JNum 1
      else JNum 2)"

definition dataConfig :: DataConfig where
  "dataConfig = constructor countryConfig incomeConfig labourConfig"

section \<open>What one step of each pass does\<close>

text \<open>The test of the first pass on a row, and the object it pushes for a row.\<close>

definition first_test :: "csvRow \<Rightarrow> bool" where
  "first_test r \<longleftrightarrow>
     indicator_name r = Some ''Labour force participation rate (%) - Female'' \<and>
     dimension r = Some ''Place of residence''"

definition first_record :: "csvRow \<Rightarrow> firstCountryData" where
  "first_record r =
     \<lparr>country = setting r, residence = subgroup r, income = wbincome2024 r,
      labour = JString (toFixed1 (parseFloat (estimate r)))\<rparr>"

text \<open>
  The second pass: its test on the income of a record (the test on the index apart), the
  expression bound to \<^verbatim>\<open>finalCountry\<close>, and the array pushed.
\<close>

definition income_present :: "firstCountryData \<Rightarrow> bool" where
  "income_present r \<longleftrightarrow> income r \<noteq> None \<and> income r \<noteq> Some ''''"

definition finalCountry :: "jsobject \<Rightarrow> field \<Rightarrow> jsval" where
  "finalCountry cc c = js_or (get_prop cc (field_to_string c)) (val_of c)"

definition second_record :: "jsobject \<Rightarrow> firstCountryData \<Rightarrow> secondCountryData" where
  "second_record cc r = (finalCountry cc (country r), income r, labour r)"

text \<open>The last pass: the expression bound to \<^verbatim>\<open>finalIncome\<close> and the array pushed.\<close>

definition finalIncome :: "jsobject \<Rightarrow> field \<Rightarrow> jsval" where
  "finalIncome ic l = get_prop ic (field_to_string l)"

definition final_record :: "jsobject \<Rightarrow> (jsval \<Rightarrow> jsval) \<Rightarrow> secondCountryData \<Rightarrow> finalCountryData" where
  "final_record ic lc e = (fst e, finalIncome ic (fst (snd e)), lc (snd (snd e)))"

text \<open>The positions of \<open>fs\<close> that the second pass keeps, in increasing order.\<close>

definition second_kept :: "firstCountryData list \<Rightarrow> nat list" where
  "second_kept fs = filter (\<lambda>j. income_present (fs ! j) \<and> j mod 2 = 0) [0..<length fs]"

text \<open>The row of the end-to-end scenario, for a subgroup.\<close>

definition russia_row :: "string \<Rightarrow> csvRow" where
  "russia_row sg =
     \<lparr>setting = Some ''Russian Federation'',
      indicator_name = Some ''Labour force participation rate (%) - Female'',
      dimension = Some ''Place of residence'',
      subgroup = Some sg,
      wbincome2024 = Some ''Upper middle income'',
      estimate = Some ''50.4''\<rparr>"

text \<open>Rows for the other scenarios: an estimate that is no number, and a second country.\<close>

definition unparsed_row :: csvRow where
  "unparsed_row = (russia_row ''Urban'')\<lparr>estimate := Some ''n/a''\<rparr>"

definition vietnam_row :: csvRow where
  "vietnam_row = (russia_row ''Urban'')\<lparr>setting := Some ''Viet Nam''\<rparr>"

section \<open>The passes as list functions\<close>

declare firstParseLoop.simps [simp del]
declare secondParseLoop.simps [simp del]
declare finalParseLoop.simps [simp del]
declare shortest_digits.simps [simp del]
declare digits_of.simps [simp del]
declare bit_length.simps [simp del]
declare ipow.simps [simp del]

lemma firstParseLoop_step:
  "firstParseLoop csvData i n this =
     (if i < n then
        firstParseLoop csvData (Suc i) n
          (if first_test (csvData ! i)
           then this\<lparr>firstSort := firstSort this @ [first_record (csvData ! i)]\<rparr>
           else this)
      else this)"
  by (subst firstParseLoop.simps) (simp add: first_test_def first_record_def Let_def)

lemma firstParseLoop_eq:
  "n = length csvData \<Longrightarrow>
   firstParseLoop csvData i n this =
     this\<lparr>firstSort := firstSort this @ map first_record (filter first_test (drop i csvData))\<rparr>"
proof (induction "n - i" arbitrary: i this)
  case 0
  then have "\<not> i < n" and "drop i csvData = []"
    by simp_all
  then show ?case
    by (subst firstParseLoop_step) simp
next
  case (Suc k)
  then have lt: "i < n" and k: "k = n - Suc i"
    by simp_all
  from lt Suc.prems have d: "drop i csvData = csvData ! i # drop (Suc i) csvData"
    by (simp add: Cons_nth_drop_Suc)
  show ?case
    by (subst firstParseLoop_step) (simp add: lt d Suc.hyps(1) [OF k Suc.prems])
qed

lemma firstParseData_eq:
  "firstParseData csvData this =
     this\<lparr>firstSort := firstSort this @ map first_record (filter first_test csvData)\<rparr>"
  by (simp add: firstParseData_def firstParseLoop_eq)

lemma secondParseLoop_step:
  "secondParseLoop i n this =
     (if i < n then
        secondParseLoop (Suc i) n
          (if income_present (firstSort this ! i) \<and> i mod 2 = 0
           then this\<lparr>secondSort := secondSort this @
                  [second_record (this_countryConfig this) (firstSort this ! i)]\<rparr>
           else this)
      else this)"
  by (subst secondParseLoop.simps)
     (simp add: income_present_def second_record_def finalCountry_def Let_def)

lemma secondParseLoop_eq:
  "n = length (firstSort this) \<Longrightarrow>
   secondParseLoop i n this =
     this\<lparr>secondSort := secondSort this @
        map (\<lambda>j. second_record (this_countryConfig this) (firstSort this ! j))
          (filter (\<lambda>j. income_present (firstSort this ! j) \<and> j mod 2 = 0) [i..<n])\<rparr>"
proof (induction "n - i" arbitrary: i this)
  case 0
  then have "\<not> i < n" and "[i..<n] = []"
    by simp_all
  then show ?case
    by (subst secondParseLoop_step) simp
next
  case (Suc k)
  then have lt: "i < n" and k: "k = n - Suc i"
    by simp_all
  from lt have u: "[i..<n] = i # [Suc i..<n]"
    by (simp add: upt_conv_Cons)
  show ?case
  proof (cases "income_present (firstSort this ! i) \<and> i mod 2 = 0")
    case True
    let ?t = "this\<lparr>secondSort := secondSort this @
                   [second_record (this_countryConfig this) (firstSort this ! i)]\<rparr>"
    have n': "n = length (firstSort ?t)"
      using Suc.prems by simp
    have "secondParseLoop i n this = secondParseLoop (Suc i) n ?t"
      using lt True by (subst secondParseLoop_step) simp
    also note Suc.hyps(1) [OF k n']
    finally show ?thesis
      using True by (simp add: u)
  next
    case False
    then have c: "(income_present (firstSort this ! i) \<and> i mod 2 = 0) = False"
      by simp
    have "secondParseLoop i n this = secondParseLoop (Suc i) n this"
      using lt by (subst secondParseLoop_step) (simp only: c if_True if_False)
    also note Suc.hyps(1) [OF k Suc.prems]
    finally show ?thesis
      by (simp only: u filter.simps c if_False)
  qed
qed

lemma secondParseData_eq:
  "secondParseData this =
     this\<lparr>secondSort := secondSort this @
        map (\<lambda>j. second_record (this_countryConfig this) (firstSort this ! j))
          (second_kept (firstSort this))\<rparr>"
  by (simp add: secondParseData_def secondParseLoop_eq second_kept_def)

lemma finalParseLoop_step:
  "finalParseLoop i n this =
     (if i < n then
        finalParseLoop (Suc i) n
          (this\<lparr>finalSort := finalSort this @
             [final_record (this_incomeConfig this) (this_labourConfig this) (secondSort this ! i)]\<rparr>)
      else this)"
  by (subst finalParseLoop.simps) (simp add: final_record_def finalIncome_def Let_def)

lemma finalParseLoop_eq:
  "n = length (secondSort this) \<Longrightarrow>
   finalParseLoop i n this =
     this\<lparr>finalSort := finalSort this @
        map (final_record (this_incomeConfig this) (this_labourConfig this))
          (drop i (secondSort this))\<rparr>"
proof (induction "n - i" arbitrary: i this)
  case 0
  then have "\<not> i < n" and "drop i (secondSort this) = []"
    by simp_all
  then show ?case
    by (subst finalParseLoop_step) simp
next
  case (Suc k)
  then have lt: "i < n" and k: "k = n - Suc i"
    by simp_all
  from lt Suc.prems
  have d: "drop i (secondSort this) = secondSort this ! i # drop (Suc i) (secondSort this)"
    by (simp add: Cons_nth_drop_Suc)
  let ?t = "this\<lparr>finalSort := finalSort this @
                 [final_record (this_incomeConfig this) (this_labourConfig this) (secondSort this ! i)]\<rparr>"
  have n': "n = length (secondSort ?t)"
    using Suc.prems by simp
  show ?case
    by (subst finalParseLoop_step) (simp add: lt d Suc.hyps(1) [OF k n'])
qed

lemma finalParseData_eq:
  "finalParseData this =
     (JUndefined,
      this\<lparr>finalSort := finalSort this @
         map (final_record (this_incomeConfig this) (this_labourConfig this)) (secondSort this)\<rparr>)"
  by (simp add: finalParseData_def finalParseLoop_eq)

section \<open>Evaluations shared by the scenarios\<close>

lemma labour_of_50_4: "toFixed1 (parseFloat (Some ''50.4'')) = ''50.4''"
  by code_simp

lemma labourConfig_of_50_4: "labourConfig (JString ''50.4'') = JNum 1"
  by code_simp

lemma labourConfig_of_NaN_string: "labourConfig (JString ''NaN'') = JNum 2"
  by code_simp

lemma first_test_russia_row: "first_test (russia_row sg)"
  by (simp add: first_test_def russia_row_def)

lemma first_record_russia_row:
  "first_record (russia_row sg) =
     \<lparr>country = Some ''Russian Federation'', residence = Some sg,
      income = Some ''Upper middle income'', labour = JString ''50.4''\<rparr>"
  by (simp add: first_record_def russia_row_def labour_of_50_4)

lemma finalCountry_russia: "finalCountry countryConfig (Some ''Russian Federation'') = JString ''Russia''"
  by code_simp

lemma finalIncome_upper_middle: "finalIncome incomeConfig (Some ''Upper middle income'') = JNum 1"
  by code_simp

lemma parseData_eq:
  "parseData csvData this =
     (let F = firstSort this @ map first_record (filter first_test csvData);
          S = secondSort this @
                map (\<lambda>j. second_record (this_countryConfig this) (F ! j)) (second_kept F);
          L = finalSort this @
                map (final_record (this_incomeConfig this) (this_labourConfig this)) S
      in (JUndefined, this\<lparr>firstSort := F, secondSort := S, finalSort := L\<rparr>))"
  by (simp add: parseData_def firstParseData_eq secondParseData_eq finalParseData_eq Let_def)

lemma dataConfig_fields:
  "this_countryConfig dataConfig = countryConfig"
  "this_incomeConfig dataConfig = incomeConfig"
  "this_labourConfig dataConfig = labourConfig"
  "firstSort dataConfig = []"
  "secondSort dataConfig = []"
  "finalSort dataConfig = []"
  by (simp_all add: dataConfig_def constructor_def)

section \<open>Properties of the pipeline\<close>

text \<open>
  C1. The end-to-end scenario: on the fresh instance of \<^verbatim>\<open>main.js\<close>, the two rows of the
  Russian Federation (urban, then rural) give two records after the first pass, of which
  the second pass keeps the one at position 0, as \<^verbatim>\<open>Russia\<close>, and the last pass leaves
  exactly the record \<^verbatim>\<open>Russia\<close>, income tertile 1, labour tertile 1. The output is the
  field \<^verbatim>\<open>finalSort\<close>; the value returned by \<^verbatim>\<open>parseData\<close> is \<^verbatim>\<open>undefined\<close>.
\<close>

theorem scenario_russian_federation:
  "parseData [russia_row ''Urban'', russia_row ''Rural''] dataConfig =
     (JUndefined,
      dataConfig
        \<lparr>firstSort :=
           [\<lparr>country = Some ''Russian Federation'', residence = Some ''Urban'',
             income = Some ''Upper middle income'', labour = JString ''50.4''\<rparr>,
            \<lparr>country = Some ''Russian Federation'', residence = Some ''Rural'',
             income = Some ''Upper middle income'', labour = JString ''50.4''\<rparr>],
         secondSort := [(JString ''Russia'', Some ''Upper middle income'', JString ''50.4'')],
         finalSort := [(JString ''Russia'', JNum 1, JNum 1)]\<rparr>)
   \<and> second_kept (firstSort (snd (parseData [russia_row ''Urban'', russia_row ''Rural''] dataConfig))) = [0]"
proof -
  let ?F = "[first_record (russia_row ''Urban''), first_record (russia_row ''Rural'')]"
  have k: "second_kept ?F = [0]"
    by (simp add: second_kept_def first_record_russia_row income_present_def upt_rec)
  show ?thesis
    by (simp add: parseData_eq dataConfig_fields first_test_russia_row k Let_def)
       (simp add: first_record_russia_row second_record_def final_record_def
          finalCountry_russia finalIncome_upper_middle labourConfig_of_50_4 k [simplified first_record_russia_row])
qed

text \<open>
  C4. The labour tertile of a number: 0 up to 45 inclusive, 1 above 45 and up to 58
  inclusive, 2 above 58; so 45.0 gives 0, 45.1 gives 1, 58.0 gives 1 and 58.1 gives 2
  (45.1 and 58.1 as the binary64 values of these literals).
\<close>

theorem labourConfig_thresholds:
  "labourConfig (JNum q) = (if q \<le> 45 then JNum 0 else if q \<le> 58 then JNum 1 else JNum 2)
   \<and> labourConfig (JNumber NegInf) = JNum 0
   \<and> labourConfig (JNumber PosInf) = JNum 2
   \<and> labourConfig (JNum 45) = JNum 0
   \<and> labourConfig (JNumber (to_double (451 / 10))) = JNum 1
   \<and> labourConfig (JNum 58) = JNum 1
   \<and> labourConfig (JNumber (to_double (581 / 10))) = JNum 2"
proof -
  have "labourConfig (JNumber (to_double (451 / 10))) = JNum 1"
    by code_simp
  moreover have "labourConfig (JNumber (to_double (581 / 10))) = JNum 2"
    by code_simp
  ultimately show ?thesis
    by (simp add: labourConfig_def)
qed

text \<open>
  C10. The labour tertile is defined on every value and is one of 0, 1, 2, each of which
  it takes. Where neither guard holds it is 2: so for not-a-number, and for the string
  \<^verbatim>\<open>NaN\<close> that a failed parse leaves in the record. It is never \<^verbatim>\<open>undefined\<close>.
\<close>

theorem labourConfig_total:
  "labourConfig v \<in> {JNum 0, JNum 1, JNum 2}
   \<and> range labourConfig = {JNum 0, JNum 1, JNum 2}
   \<and> (\<not> num_le (to_number v) (Fin 45) \<and>
       \<not> (num_lt (Fin 45) (to_number v) \<and> num_le (to_number v) (Fin 58))
       \<longrightarrow> labourConfig v = JNum 2)
   \<and> labourConfig (JNumber NaN) = JNum 2
   \<and> labourConfig (JString (toFixed1 NaN)) = JNum 2
   \<and> labourConfig v \<noteq> JUndefined"
proof -
  have in3: "labourConfig w \<in> {JNum 0, JNum 1, JNum 2}" for w
    by (simp add: labourConfig_def)
  have "JNum 0 = labourConfig (JNum 0)" "JNum 1 = labourConfig (JNum 50)"
       "JNum 2 = labourConfig (JNum 60)"
    by (simp_all add: labourConfig_def)
  then have "{JNum 0, JNum 1, JNum 2} \<subseteq> range labourConfig"
    by (metis insert_subset empty_subsetI rangeI)
  with in3 have r: "range labourConfig = {JNum 0, JNum 1, JNum 2}"
    by blast
  have s: "labourConfig (JString (toFixed1 NaN)) = JNum 2"
    by (simp add: toFixed1_def labourConfig_of_NaN_string)
  have u: "labourConfig v \<noteq> JUndefined"
    using in3 [of v] by auto
  show ?thesis
    using in3 [of v] r s u by (simp add: labourConfig_def)
qed

theorem labourConfig_total_witness:
  "\<not> num_le (to_number (JNumber NaN)) (Fin 45)
   \<and> \<not> (num_lt (Fin 45) (to_number (JNumber NaN)) \<and> num_le (to_number (JNumber NaN)) (Fin 58))
   \<and> labourConfig (JNumber NaN) = JNum 2"
  using labourConfig_total [of "JNumber NaN"] by simp

lemma length_filter_even_upt: "length (filter (\<lambda>j. j mod 2 = 0) [0..<n]) = (n + 1) div 2"
  by (induction n) (auto, presburger+)

text \<open>
  C5. The first pass appends, for the rows that pass its test and in their order, one
  record each: never more records than rows, each from a row of the input whose
  indicator is the female labour force participation rate and whose dimension is the
  place of residence.
\<close>

theorem firstParseData_keeps_matching_rows:
  "firstSort (firstParseData csvData this) =
     firstSort this @ map first_record (filter first_test csvData)
   \<and> subseq (filter first_test csvData) csvData
   \<and> length (filter first_test csvData) \<le> length csvData
   \<and> (\<forall>r \<in> set (filter first_test csvData).
         r \<in> set csvData \<and>
         indicator_name r = Some ''Labour force participation rate (%) - Female'' \<and>
         dimension r = Some ''Place of residence'')
   \<and> length (firstSort (firstParseData csvData (constructor cc ic lc))) \<le> length csvData"
  by (simp add: firstParseData_eq constructor_def first_test_def)

theorem firstParseData_keeps_matching_rows_witness:
  "russia_row ''Urban'' \<in>
     set (filter first_test [russia_row ''Urban'', (russia_row ''Rural'')\<lparr>dimension := Some ''Sex''\<rparr>])
   \<and> indicator_name (russia_row ''Urban'') = Some ''Labour force participation rate (%) - Female''
   \<and> dimension (russia_row ''Urban'') = Some ''Place of residence''
   \<and> firstSort (firstParseData
        [russia_row ''Urban'', (russia_row ''Rural'')\<lparr>dimension := Some ''Sex''\<rparr>] dataConfig) =
      [first_record (russia_row ''Urban'')]"
  using firstParseData_keeps_matching_rows
    [of "[russia_row ''Urban'', (russia_row ''Rural'')\<lparr>dimension := Some ''Sex''\<rparr>]" dataConfig]
  by (simp add: first_test_def russia_row_def dataConfig_fields)

text \<open>
  C3. The second pass appends, in their order, the records of the first pass whose
  position (from 0) is even and whose income is defined and not empty, each with its
  country renamed; when every income is defined and not empty, these are
  \<open>\<lceil>n / 2\<rceil>\<close> of the \<open>n\<close> records.
\<close>

theorem secondParseData_even_positions:
  "secondSort (secondParseData this) =
     secondSort this @
     map (\<lambda>j. second_record (this_countryConfig this) (firstSort this ! j))
       (filter (\<lambda>j. j mod 2 = 0 \<and> income (firstSort this ! j) \<noteq> None \<and>
                   income (firstSort this ! j) \<noteq> Some '''')
          [0..<length (firstSort this)])
   \<and> ((\<forall>r \<in> set (firstSort this). income r \<noteq> None \<and> income r \<noteq> Some '''') \<longrightarrow>
        length (secondSort (secondParseData this)) =
          length (secondSort this) + (length (firstSort this) + 1) div 2)"
proof -
  let ?fs = "firstSort this"
  have a: "second_kept ?fs =
             filter (\<lambda>j. j mod 2 = 0 \<and> income (?fs ! j) \<noteq> None \<and> income (?fs ! j) \<noteq> Some '''')
               [0..<length ?fs]"
    unfolding second_kept_def income_present_def by (rule filter_cong) auto
  have b: "length (second_kept ?fs) = (length ?fs + 1) div 2"
    if all: "\<forall>r \<in> set ?fs. income r \<noteq> None \<and> income r \<noteq> Some ''''"
  proof -
    have "second_kept ?fs = filter (\<lambda>j. j mod 2 = 0) [0..<length ?fs]"
      unfolding second_kept_def income_present_def
      using all by (intro filter_cong) auto
    then show ?thesis
      by (simp only: length_filter_even_upt)
  qed
  have c: "secondSort (secondParseData this) =
             secondSort this @
             map (\<lambda>j. second_record (this_countryConfig this) (?fs ! j)) (second_kept ?fs)"
    by (simp add: secondParseData_eq)
  show ?thesis
  proof (intro conjI impI)
    show "secondSort (secondParseData this) =
            secondSort this @
            map (\<lambda>j. second_record (this_countryConfig this) (?fs ! j))
              (filter (\<lambda>j. j mod 2 = 0 \<and> income (?fs ! j) \<noteq> None \<and> income (?fs ! j) \<noteq> Some '''')
                 [0..<length ?fs])"
      by (simp only: c a)
  next
    assume "\<forall>r \<in> set ?fs. income r \<noteq> None \<and> income r \<noteq> Some ''''"
    then show "length (secondSort (secondParseData this)) =
                 length (secondSort this) + (length ?fs + 1) div 2"
      by (simp only: c b length_append length_map)
  qed
qed

theorem secondParseData_even_positions_witness:
  "list_all (\<lambda>r. income r \<noteq> None \<and> income r \<noteq> Some '''')
     [\<lparr>country = Some ''A'', residence = Some ''Urban'', income = Some ''Low income'', labour = JString ''40.0''\<rparr>,
      \<lparr>country = Some ''A'', residence = Some ''Rural'', income = Some ''Low income'', labour = JString ''41.0''\<rparr>,
      \<lparr>country = Some ''B'', residence = Some ''Urban'', income = Some ''High income'', labour = JString ''60.0''\<rparr>]
   \<and> length (secondSort (secondParseData (dataConfig\<lparr>firstSort :=
     [\<lparr>country = Some ''A'', residence = Some ''Urban'', income = Some ''Low income'', labour = JString ''40.0''\<rparr>,
      \<lparr>country = Some ''A'', residence = Some ''Rural'', income = Some ''Low income'', labour = JString ''41.0''\<rparr>,
      \<lparr>country = Some ''B'', residence = Some ''Urban'', income = Some ''High income'', labour = JString ''60.0''\<rparr>]\<rparr>))) = 2"
  using secondParseData_even_positions [of "dataConfig\<lparr>firstSort :=
     [\<lparr>country = Some ''A'', residence = Some ''Urban'', income = Some ''Low income'', labour = JString ''40.0''\<rparr>,
      \<lparr>country = Some ''A'', residence = Some ''Rural'', income = Some ''Low income'', labour = JString ''41.0''\<rparr>,
      \<lparr>country = Some ''B'', residence = Some ''Urban'', income = Some ''High income'', labour = JString ''60.0''\<rparr>]\<rparr>"]
  by (simp add: dataConfig_fields)

lemma second_kept_less: "j \<in> set (second_kept xs) \<Longrightarrow> j < length xs"
  by (simp add: second_kept_def)

lemma second_kept_append_Cons:
  assumes "income_present y" and "length xs mod 2 = 0"
  shows "\<exists>rest. second_kept (xs @ y # zs) = second_kept xs @ length xs # rest"
proof -
  let ?P = "\<lambda>j. income_present ((xs @ y # zs) ! j) \<and> j mod 2 = 0"
  have a: "[0..<length xs + Suc (length zs)] =
          [0..<length xs] @ [length xs..<length xs + Suc (length zs)]"
    by (rule upt_add_eq_append) simp
  have b: "[length xs..<length xs + Suc (length zs)] =
          length xs # [Suc (length xs)..<length xs + Suc (length zs)]"
    by (rule upt_conv_Cons) simp
  have len: "length (xs @ y # zs) = length xs + Suc (length zs)"
    by simp
  have "[0..<length (xs @ y # zs)] =
          [0..<length xs] @ length xs # [Suc (length xs)..<length xs + Suc (length zs)]"
    by (simp only: len a b)
  then have "second_kept (xs @ y # zs) =
          filter ?P [0..<length xs] @
          filter ?P (length xs # [Suc (length xs)..<length xs + Suc (length zs)])"
    by (simp only: second_kept_def filter_append)
  moreover have "filter ?P [0..<length xs] = second_kept xs"
    unfolding second_kept_def by (rule filter_cong) (auto simp add: nth_append)
  moreover have "?P (length xs)"
    using assms by simp
  ultimately show ?thesis
    by simp
qed

lemma second_records_append_Cons:
  assumes "income_present y" and "length xs mod 2 = 0"
  shows "\<exists>rest. map (\<lambda>j. second_record cc ((xs @ y # zs) ! j)) (second_kept (xs @ y # zs)) =
           map (\<lambda>j. second_record cc (xs ! j)) (second_kept xs) @ second_record cc y # rest"
proof -
  from second_kept_append_Cons [OF assms, of zs]
  obtain ks where ks: "second_kept (xs @ y # zs) = second_kept xs @ length xs # ks"
    by blast
  have "map (\<lambda>j. second_record cc ((xs @ y # zs) ! j)) (second_kept xs) =
        map (\<lambda>j. second_record cc (xs ! j)) (second_kept xs)"
    by (rule map_cong) (auto simp add: nth_append dest: second_kept_less)
  then show ?thesis
    by (simp add: ks)
qed

text \<open>
  C2, as the code has it. A row that passes the test of the first pass and whose estimate
  does not parse is not left out: its record carries the string \<^verbatim>\<open>NaN\<close> as labour, and
  when it stands at an even position after the first pass with an income that is
  defined and not empty, a fresh instance puts its record into the output, right after
  the records of the rows before it, with labour tertile 2.
\<close>

theorem unparsed_estimate_is_kept:
  assumes "first_test r" and "parseFloat (estimate r) = NaN"
    and "wbincome2024 r \<noteq> None" and "wbincome2024 r \<noteq> Some ''''"
    and "length (filter first_test pre) mod 2 = 0"
  shows "labour (first_record r) = JString ''NaN''
    \<and> (\<exists>rest. finalSort (snd (parseData (pre @ r # post) (constructor cc ic labourConfig))) =
          finalSort (snd (parseData pre (constructor cc ic labourConfig))) @
          (finalCountry cc (setting r), finalIncome ic (wbincome2024 r), JNum 2) # rest)"
proof -
  let ?xs = "map first_record (filter first_test pre)"
  let ?zs = "map first_record (filter first_test post)"
  have nan: "labour (first_record r) = JString ''NaN''"
    using assms(2) by (simp add: first_record_def toFixed1_def)
  have F: "map first_record (filter first_test (pre @ r # post)) = ?xs @ first_record r # ?zs"
    using assms(1) by simp
  have p: "income_present (first_record r)"
    using assms(3,4) by (simp add: income_present_def first_record_def)
  have e: "length ?xs mod 2 = 0"
    using assms(5) by simp
  from second_records_append_Cons [OF p e, of cc ?zs]
  obtain rest where rest:
    "map (\<lambda>j. second_record cc ((?xs @ first_record r # ?zs) ! j))
       (second_kept (?xs @ first_record r # ?zs)) =
     map (\<lambda>j. second_record cc (?xs ! j)) (second_kept ?xs) @ second_record cc (first_record r) # rest"
    by blast
  have rec: "final_record ic labourConfig (second_record cc (first_record r)) =
               (finalCountry cc (setting r), finalIncome ic (wbincome2024 r), JNum 2)"
    by (simp add: final_record_def second_record_def first_record_def assms(2) toFixed1_def
          labourConfig_of_NaN_string)
  have "finalSort (snd (parseData (pre @ r # post) (constructor cc ic labourConfig))) =
          finalSort (snd (parseData pre (constructor cc ic labourConfig))) @
          (finalCountry cc (setting r), finalIncome ic (wbincome2024 r), JNum 2) #
          map (final_record ic labourConfig) rest"
    by (simp only: parseData_eq Let_def snd_conv constructor_def DataConfig.simps append_Nil F rest
          map_append list.map rec)
  with nan show ?thesis
    by blast
qed

lemma parseFloat_unparsed: "parseFloat (Some ''n/a'') = NaN"
  by code_simp

lemma unparsed_row_facts:
  "first_test unparsed_row"
  "parseFloat (estimate unparsed_row) = NaN"
  "wbincome2024 unparsed_row = Some ''Upper middle income''"
  "setting unparsed_row = Some ''Russian Federation''"
  by (simp_all add: unparsed_row_def russia_row_def first_test_def parseFloat_unparsed)

theorem unparsed_estimate_is_kept_witness:
  "first_test unparsed_row \<and> parseFloat (estimate unparsed_row) = NaN
   \<and> wbincome2024 unparsed_row \<noteq> None \<and> wbincome2024 unparsed_row \<noteq> Some ''''
   \<and> length (filter first_test []) mod 2 = 0
   \<and> labour (first_record unparsed_row) = JString ''NaN''
   \<and> (\<exists>rest. finalSort (snd (parseData ([] @ unparsed_row # []) dataConfig)) =
         finalSort (snd (parseData [] dataConfig)) @ (JString ''Russia'', JNum 1, JNum 2) # rest)"
proof -
  have h: "wbincome2024 unparsed_row \<noteq> None" "wbincome2024 unparsed_row \<noteq> Some ''''"
    "length (filter first_test []) mod 2 = 0"
    by (simp_all add: unparsed_row_facts)
  from unparsed_estimate_is_kept
         [OF unparsed_row_facts(1) unparsed_row_facts(2) h, of "[]" countryConfig incomeConfig]
  show ?thesis
    by (simp add: unparsed_row_facts dataConfig_def finalCountry_russia finalIncome_upper_middle)
qed

text \<open>
  C2, as stated, fails: the one row whose estimate is \<^verbatim>\<open>n/a\<close> passes the test of
  the first pass, its estimate does not parse, and the output is its record.
\<close>

theorem unparsed_estimate_counterexample:
  "first_test unparsed_row \<and> parseFloat (estimate unparsed_row) = NaN
   \<and> finalSort (snd (parseData [unparsed_row] dataConfig)) = [(JString ''Russia'', JNum 1, JNum 2)]"
proof -
  have r: "first_record unparsed_row =
             \<lparr>country = Some ''Russian Federation'', residence = Some ''Urban'',
              income = Some ''Upper middle income'', labour = JString ''NaN''\<rparr>"
    by (simp add: first_record_def unparsed_row_def russia_row_def parseFloat_unparsed toFixed1_def)
  have k: "second_kept [first_record unparsed_row] = [0]"
    by (simp add: second_kept_def r income_present_def)
  show ?thesis
    by (simp add: parseData_eq dataConfig_fields unparsed_row_facts k Let_def)
       (simp add: r second_record_def final_record_def finalCountry_russia
          finalIncome_upper_middle labourConfig_of_NaN_string)
qed

text \<open>
  C7, as the code has it. An invocation appends to the three sequences of the instance:
  to \<^verbatim>\<open>firstSort\<close> the records of the rows given, to \<^verbatim>\<open>secondSort\<close> what the second pass
  keeps of the whole of \<^verbatim>\<open>firstSort\<close>, to \<^verbatim>\<open>finalSort\<close> the records of the whole of
  \<^verbatim>\<open>secondSort\<close>; so the output is determined by the rows together with the three
  sequences the instance held before. On a fresh instance it is determined by the rows
  alone. After two invocations on a fresh instance the output is that of the first
  invocation, followed by the records of what the first invocation kept and of what the
  second pass keeps of the records of both inputs together.
\<close>

theorem parseData_accumulates:
  "snd (parseData csvData this) =
     (let F = firstSort this @ map first_record (filter first_test csvData);
          S = secondSort this @
                map (\<lambda>j. second_record (this_countryConfig this) (F ! j)) (second_kept F);
          L = finalSort this @
                map (final_record (this_incomeConfig this) (this_labourConfig this)) S
      in this\<lparr>firstSort := F, secondSort := S, finalSort := L\<rparr>)
   \<and> finalSort (snd (parseData csvData (constructor cc ic lc))) =
       map (final_record ic lc)
         (map (\<lambda>j. second_record cc (map first_record (filter first_test csvData) ! j))
            (second_kept (map first_record (filter first_test csvData))))
   \<and> finalSort (snd (parseData csvData' (snd (parseData csvData (constructor cc ic lc))))) =
       (let F1 = map first_record (filter first_test csvData);
            S1 = map (\<lambda>j. second_record cc (F1 ! j)) (second_kept F1);
            F2 = F1 @ map first_record (filter first_test csvData');
            S2 = map (\<lambda>j. second_record cc (F2 ! j)) (second_kept F2)
        in map (final_record ic lc) S1 @ map (final_record ic lc) S1 @ map (final_record ic lc) S2)"
  by (simp add: parseData_eq Let_def constructor_def)

text \<open>
  C7, as stated, fails. The same row gives one output on the fresh instance
  and another on the instance that has parsed a row before: there the output is three
  times the record of the earlier row, and the record of the new row is missing.
\<close>

theorem parseData_twice_counterexample:
  "finalSort (snd (parseData [vietnam_row] dataConfig)) = [(JString ''Vietnam'', JNum 1, JNum 1)]
   \<and> finalSort (snd (parseData [vietnam_row] (snd (parseData [russia_row ''Urban''] dataConfig)))) =
       [(JString ''Russia'', JNum 1, JNum 1), (JString ''Russia'', JNum 1, JNum 1),
        (JString ''Russia'', JNum 1, JNum 1)]
   \<and> finalSort (snd (parseData [vietnam_row] (snd (parseData [russia_row ''Urban''] dataConfig)))) \<noteq>
       finalSort (snd (parseData [vietnam_row] dataConfig))"
proof -
  have v: "first_test vietnam_row"
    by (simp add: vietnam_row_def russia_row_def first_test_def)
  have rv: "first_record vietnam_row =
              \<lparr>country = Some ''Viet Nam'', residence = Some ''Urban'',
               income = Some ''Upper middle income'', labour = JString ''50.4''\<rparr>"
    by (simp add: first_record_def vietnam_row_def russia_row_def labour_of_50_4)
  have c: "finalCountry countryConfig (Some ''Viet Nam'') = JString ''Vietnam''"
    by code_simp
  have k1: "second_kept [a] = (if income_present a then [0] else [])" for a
    by (simp add: second_kept_def)
  have k2: "second_kept [a, b] = (if income_present a then [0] else [])" for a b
    by (simp add: second_kept_def upt_rec)
  have fresh: "finalSort (snd (parseData [vietnam_row] dataConfig)) =
                 [(JString ''Vietnam'', JNum 1, JNum 1)]"
    by (simp add: parseData_eq dataConfig_fields v k1 Let_def)
       (simp add: rv income_present_def second_record_def final_record_def c
          finalIncome_upper_middle labourConfig_of_50_4)
  have used: "finalSort (snd (parseData [vietnam_row] (snd (parseData [russia_row ''Urban''] dataConfig)))) =
       [(JString ''Russia'', JNum 1, JNum 1), (JString ''Russia'', JNum 1, JNum 1),
        (JString ''Russia'', JNum 1, JNum 1)]"
    by (simp add: parseData_eq dataConfig_fields v first_test_russia_row k1 k2 Let_def)
       (simp add: rv first_record_russia_row income_present_def second_record_def
          final_record_def finalCountry_russia finalIncome_upper_middle labourConfig_of_50_4)
  from fresh used show ?thesis
    by simp
qed

section \<open>Where the code departs from its specification\<close>

subsection \<open>The labour rate is stored as a string\<close>

lemma first_record_labour:
  "labour (first_record r) = JString (toFixed1 (parseFloat (estimate r)))"
  by (simp add: first_record_def)

lemma firstParseData_labour_is_string:
  "r \<in> set (firstSort (firstParseData csvData (constructor cc ic lc))) \<Longrightarrow> \<exists>s. labour r = JString s"
  by (auto simp add: firstParseData_eq constructor_def first_record_def)

text \<open>
  C8, at an input where the code departs from it. For the urban row of the scenario the
  first pass stores as labour the string \<^verbatim>\<open>50.4\<close>, the result of \<^verbatim>\<open>toFixed(1)\<close>, and not the
  Number that \<^verbatim>\<open>parseFloat\<close> returned.
\<close>

theorem labour_is_stored_as_string:
  "firstSort (firstParseData [russia_row ''Urban''] dataConfig) =
     [\<lparr>country = Some ''Russian Federation'', residence = Some ''Urban'',
       income = Some ''Upper middle income'', labour = JString ''50.4''\<rparr>]
   \<and> labour (first_record (russia_row ''Urban'')) \<noteq> JNumber (parseFloat (estimate (russia_row ''Urban'')))"
  by (simp add: firstParseData_eq dataConfig_fields first_test_russia_row first_record_russia_row)

subsection \<open>Names inherited from the prototype of an object literal\<close>

lemma countryConfig_values_truthy: "list_all (\<lambda>(k, t). truthy t) countryConfig"
  by (simp add: countryConfig_def)

lemma finalCountry_of_key:
  assumes "map_of countryConfig s = Some t"
  shows "finalCountry countryConfig (Some s) = t"
proof -
  from assms have "(s, t) \<in> set countryConfig"
    by (rule map_of_SomeD)
  with countryConfig_values_truthy have "truthy t"
    by (auto simp add: list_all_iff)
  with assms show ?thesis
    by (simp add: finalCountry_def get_prop_def js_or_def field_to_string_def)
qed

lemma finalCountry_of_other:
  "map_of countryConfig s = None \<Longrightarrow> s \<notin> set object_prototype_names \<Longrightarrow>
   finalCountry countryConfig (Some s) = JString s"
  by (simp add: finalCountry_def get_prop_def js_or_def field_to_string_def val_of_def)

lemma inherited_names_not_countries:
  "list_all (\<lambda>s. map_of countryConfig s = None) object_prototype_names"
  by code_simp

lemma finalCountry_of_inherited:
  assumes "s \<in> set object_prototype_names"
  shows "finalCountry countryConfig (Some s) = JObject s"
proof -
  from assms inherited_names_not_countries have "map_of countryConfig s = None"
    by (simp add: list_all_iff)
  with assms show ?thesis
    by (simp add: finalCountry_def get_prop_def js_or_def field_to_string_def)
qed

lemma finalCountry_targets_unchanged:
  "list_all (\<lambda>(k, t). case t of JString s \<Rightarrow> finalCountry countryConfig (Some s) = t | _ \<Rightarrow> False)
     countryConfig"
  by code_simp

text \<open>
  C9, at an input where the code departs from it. The country name \<^verbatim>\<open>constructor\<close> is no
  key of the table, and the second pass does not keep it unchanged: the lookup finds the
  function that every object literal inherits under this name, and that function becomes
  the country of the record.
\<close>

theorem finalCountry_inherited_name:
  "map_of countryConfig ''constructor'' = None
   \<and> finalCountry countryConfig (Some ''constructor'') = JObject ''constructor''
   \<and> finalSort (snd (parseData [(russia_row ''Urban'')\<lparr>setting := Some ''constructor''\<rparr>] dataConfig)) =
       [(JObject ''constructor'', JNum 1, JNum 1)]"
proof -
  let ?r = "(russia_row ''Urban'')\<lparr>setting := Some ''constructor''\<rparr>"
  have n: "map_of countryConfig ''constructor'' = None"
    using inherited_names_not_countries by (simp add: object_prototype_names_def)
  have c: "finalCountry countryConfig (Some ''constructor'') = JObject ''constructor''"
    by (rule finalCountry_of_inherited) (simp add: object_prototype_names_def)
  have t: "first_test ?r"
    by (simp add: russia_row_def first_test_def)
  have r: "first_record ?r =
             \<lparr>country = Some ''constructor'', residence = Some ''Urban'',
              income = Some ''Upper middle income'', labour = JString ''50.4''\<rparr>"
    by (simp add: first_record_def russia_row_def labour_of_50_4)
  have k: "second_kept [first_record ?r] = [0]"
    by (simp add: second_kept_def r income_present_def)
  have "finalSort (snd (parseData [?r] dataConfig)) = [(JObject ''constructor'', JNum 1, JNum 1)]"
    by (simp add: parseData_eq dataConfig_fields t k Let_def)
       (simp add: r second_record_def final_record_def c finalIncome_upper_middle
          labourConfig_of_50_4)
  with n c show ?thesis
    by simp
qed

lemma finalIncome_of_other:
  "l \<notin> {''Low income'', ''Lower middle income'', ''Upper middle income'', ''High income''} \<Longrightarrow>
   l \<notin> set object_prototype_names \<Longrightarrow>
   finalIncome incomeConfig (Some l) = JUndefined"
  by (simp add: finalIncome_def get_prop_def incomeConfig_def field_to_string_def)

lemma finalIncome_zero_only_for_low:
  "l \<notin> {''Low income'', ''Lower middle income''} \<Longrightarrow> finalIncome incomeConfig (Some l) \<noteq> JNum 0"
  by (simp add: finalIncome_def get_prop_def incomeConfig_def field_to_string_def)

text \<open>
  C6, at an input where the code departs from it. The income label \<^verbatim>\<open>toString\<close> is none of
  the four keys of the table, and its tertile is not \<^verbatim>\<open>undefined\<close>: it is the function that
  every object literal inherits under this name. (It is not 0 either.)
\<close>

theorem finalIncome_inherited_name:
  "map_of incomeConfig ''toString'' = None
   \<and> finalIncome incomeConfig (Some ''toString'') = JObject ''toString''
   \<and> finalSort (snd (parseData [(russia_row ''Urban'')\<lparr>wbincome2024 := Some ''toString''\<rparr>] dataConfig)) =
       [(JString ''Russia'', JObject ''toString'', JNum 1)]"
proof -
  let ?r = "(russia_row ''Urban'')\<lparr>wbincome2024 := Some ''toString''\<rparr>"
  have n: "map_of incomeConfig ''toString'' = None"
    by (simp add: incomeConfig_def)
  have c: "finalIncome incomeConfig (Some ''toString'') = JObject ''toString''"
    by (simp add: finalIncome_def get_prop_def n field_to_string_def object_prototype_names_def)
  have t: "first_test ?r"
    by (simp add: russia_row_def first_test_def)
  have r: "first_record ?r =
             \<lparr>country = Some ''Russian Federation'', residence = Some ''Urban'',
              income = Some ''toString'', labour = JString ''50.4''\<rparr>"
    by (simp add: first_record_def russia_row_def labour_of_50_4)
  have k: "second_kept [first_record ?r] = [0]"
    by (simp add: second_kept_def r income_present_def)
  have "finalSort (snd (parseData [?r] dataConfig)) =
          [(JString ''Russia'', JObject ''toString'', JNum 1)]"
    by (simp add: parseData_eq dataConfig_fields t k Let_def)
       (simp add: r second_record_def final_record_def c finalCountry_russia
          labourConfig_of_50_4)
  with n c show ?thesis
    by simp
qed

end
